theory Spec2Isabelle
  imports Main "HOL-Library.Word"
begin

section \<open>Dynamic values, errors and results\<close>

text \<open>
  The package \<^verbatim>\<open>pkg/cel/libs/http\<close> hands Go values of type \<^verbatim>\<open>any\<close> to the
  expression runtime. The values that occur are the ones \<^verbatim>\<open>encoding/json\<close> decodes
  into an \<^verbatim>\<open>any\<close> (nil, bool, float64, string, []any, map[string]any) and the Go
  \<^verbatim>\<open>int\<close> that \<^verbatim>\<open>executeRequest\<close> stores under \<^verbatim>\<open>statusCode\<close>. A float64 is kept as
  its 64 bits; no arithmetic is done on it here. A Go map has unique keys and no order:
  it is a partial function from keys to values.
\<close>

type_synonym float64 = "64 word"

datatype val =
    VNil
  | VBool bool
  | VFloat64 float64
  | VInt int
  | VString string
  | VSlice "val list"
  | VMap "string \<Rightarrow> val option"

text \<open>
  A Go \<^verbatim>\<open>error\<close> value: either one made by a library or by \<^verbatim>\<open>fmt.Errorf\<close> without
  \<^verbatim>\<open>%w\<close> (\<open>Error msg\<close>), or \<^verbatim>\<open>fmt.Errorf(msg + ": %w", err)\<close>, which wraps \<open>err\<close>
  (\<open>Errorf msg err\<close>).
\<close>

datatype error =
    Error string
  | Errorf string error

text \<open>
  A call of this package ends in one of three ways: \<^verbatim>\<open>return v, nil\<close> (\<open>Inr v\<close>),
  \<^verbatim>\<open>return nil, err\<close> with a non-nil \<open>err\<close> (\<open>Inl (Err err)\<close>), or a run-time panic on
  a nil dereference (\<open>Inl (Panic msg)\<close>).
\<close>

datatype failure =
    Err error
  | Panic string

section \<open>Requests, responses and the dispatching collaborator\<close>

text \<open>
  \<^verbatim>\<open>http.Header\<close> is \<^verbatim>\<open>map[string][]string\<close>. Of \<^verbatim>\<open>http.Request\<close> the model keeps the
  method, the parsed URL, the header and the bytes of the body (\<open>None\<close> is the nil
  body of a GET).
\<close>

type_synonym Header = "string \<Rightarrow> string list option"

record 'u Request =
  Method :: string
  URL :: 'u
  Header :: Header
  ReqBody :: "string option"

text \<open>
  Of \<^verbatim>\<open>http.Response\<close> the model keeps \<^verbatim>\<open>StatusCode\<close> (a Go int) and \<^verbatim>\<open>Body\<close>, an
  \<^verbatim>\<open>io.ReadCloser\<close> interface value that may be nil (\<open>None\<close>).
\<close>

record 'b Response =
  StatusCode :: int
  Body :: "'b option"

text \<open>
  The transport that \<^verbatim>\<open>Client\<close> builds: \<^verbatim>\<open>tls.Config\<close> with its two fields set there,
  \<^verbatim>\<open>http.Transport\<close> holding it, and the round tripper that
  \<^verbatim>\<open>tracing.Transport(transport, otelhttp.WithFilter(tracing.RequestFilterIsInSpan))\<close>
  returns, which this package consumes opaquely. A certificate is the bytes of its DER
  encoding; a \<^verbatim>\<open>x509.CertPool\<close> is the list of its certificates.
\<close>

type_synonym Certificate = string

type_synonym CertPool = "Certificate list"

record tls_Config =
  RootCAs :: CertPool
  MinVersion :: nat

record http_Transport =
  TLSClientConfig :: tls_Config

datatype RoundTripper =
    tracing_Transport http_Transport

definition VersionTLS12 :: nat where
  "VersionTLS12 = 0x0303"

text \<open>
  A non-nil value of the interface \<^verbatim>\<open>ClientInterface\<close>: the package variable
  \<^verbatim>\<open>http.DefaultClient\<close>, a \<^verbatim>\<open>&http.Client{Transport: rt}\<close> allocated by \<^verbatim>\<open>Client\<close>, or
  any other implementation handed to \<^verbatim>\<open>NewHTTP\<close> (a test double, say). The nil
  interface value, the one that \<^verbatim>\<open>client == nil\<close> tests for, is \<open>None\<close> of the option
  type.
\<close>

datatype 'c ClientInterface =
    http_DefaultClient
  | http_Client RoundTripper
  | Other 'c

record 'c contextImpl =
  client :: "'c ClientInterface option"

text \<open>
  What the package calls and does not define. \<open>Do\<close> is the method \<^verbatim>\<open>Do\<close> of
  \<^verbatim>\<open>ClientInterface\<close>, dispatched on the client value: it returns the Go pair
  \<^verbatim>\<open>(*http.Response, error)\<close>, either of which may be nil, and acts on the world
  \<open>'w\<close> (the network, or the call log of a test double). The others are functions of
  Go's standard library, taken as parameters:
  \<^item> \<open>url_Parse\<close>: the URL parsing by which \<^verbatim>\<open>http.NewRequestWithContext\<close> fails or not;
  \<^item> \<open>json_Encode\<close>: \<^verbatim>\<open>json.NewEncoder(buffer).Encode(data)\<close>, the bytes written to the
    buffer or the error;
  \<^item> \<open>fmt_v\<close>: how \<^verbatim>\<open>fmt\<close> prints \<open>data\<close> under the verb \<^verbatim>\<open>%v\<close>;
  \<^item> \<open>json_Decode\<close>: \<^verbatim>\<open>json.NewDecoder(resp.Body).Decode(&body)\<close>, the decoded value or
    the error (of the syntax, or of reading the stream);
  \<^item> \<open>certsFromPEM\<close>: the certificates that \<^verbatim>\<open>AppendCertsFromPEM\<close> parses out of a PEM
    text.
\<close>

record ('d, 'u, 'b, 'c, 'w) platform =
  url_Parse :: "string \<Rightarrow> error + 'u"
  json_Encode :: "'d \<Rightarrow> error + string"
  fmt_v :: "'d \<Rightarrow> string"
  json_Decode :: "'b \<Rightarrow> error + val"
  certsFromPEM :: "string \<Rightarrow> Certificate list"
  Do :: "'c ClientInterface \<Rightarrow> 'u Request \<Rightarrow> 'w \<Rightarrow> ('b Response option \<times> error option) \<times> 'w"

section \<open>Standard library functions with a fixed meaning\<close>

text \<open>
  \<^verbatim>\<open>http.NewRequestWithContext(context.TODO(), method, url, body)\<close>: the context is not
  nil and the methods used here (GET, POST) are valid, so it fails exactly when the URL
  does not parse; the new request has an empty header.
\<close>

definition NewRequestWithContext ::
  "('d, 'u, 'b, 'c, 'w) platform \<Rightarrow> string \<Rightarrow> string \<Rightarrow> string option \<Rightarrow> error + 'u Request" where
  "NewRequestWithContext P method url body =
     (case url_Parse P url of
        Inl err \<Rightarrow> Inl err
      | Inr u \<Rightarrow> Inr \<lparr>Method = method, URL = u, Header = Map.empty, ReqBody = body\<rparr>)"

text \<open>
  \<^verbatim>\<open>textproto.CanonicalMIMEHeaderKey\<close>: a key with a byte that is not a token byte of
  RFC 7230 is returned as it is; otherwise the first letter and every letter after a
  hyphen are put in upper case and the other letters in lower case.
\<close>

definition isLower :: "char \<Rightarrow> bool" where
  "isLower c = (97 \<le> (of_char c :: nat) \<and> (of_char c :: nat) \<le> 122)"

definition isUpper :: "char \<Rightarrow> bool" where
  "isUpper c = (65 \<le> (of_char c :: nat) \<and> (of_char c :: nat) \<le> 90)"

definition isDigit :: "char \<Rightarrow> bool" where
  "isDigit c = (48 \<le> (of_char c :: nat) \<and> (of_char c :: nat) \<le> 57)"

definition validHeaderFieldByte :: "char \<Rightarrow> bool" where
  "validHeaderFieldByte c =
     (isLower c \<or> isUpper c \<or> isDigit c \<or>
      (of_char c :: nat) \<in> {33, 35, 36, 37, 38, 39, 42, 43, 45, 46, 94, 95, 96, 124, 126})"

definition toLower :: nat where
  "toLower = 32"

definition canonicalByte :: "bool \<Rightarrow> char \<Rightarrow> char" where
  "canonicalByte upper c =
     (if upper \<and> isLower c then char_of ((of_char c :: nat) - toLower)
      else if \<not> upper \<and> isUpper c then char_of ((of_char c :: nat) + toLower)
      else c)"

fun canonicalise :: "bool \<Rightarrow> string \<Rightarrow> string" where
  "canonicalise upper [] = []"
| "canonicalise upper (c # cs) =
     canonicalByte upper c # canonicalise (canonicalByte upper c = CHR ''-'') cs"

definition CanonicalMIMEHeaderKey :: "string \<Rightarrow> string" where
  "CanonicalMIMEHeaderKey s =
     (if list_all validHeaderFieldByte s then canonicalise True s else s)"

text \<open>
  \<^verbatim>\<open>Header.Add(key, value)\<close>: the value is appended to the values stored under the
  canonical form of the key.
\<close>

definition Header_Add :: "Header \<Rightarrow> string \<Rightarrow> string \<Rightarrow> Header" where
  "Header_Add h key v =
     (let k = CanonicalMIMEHeaderKey key
      in h(k \<mapsto> (case h k of None \<Rightarrow> [] | Some vs \<Rightarrow> vs) @ [v]))"

text \<open>
  \<^verbatim>\<open>caCertPool.AppendCertsFromPEM(pem)\<close> appends the certificates found to the pool and
  reports whether any certificate was parsed.
\<close>

definition NewCertPool :: CertPool where
  "NewCertPool = []"

definition AppendCertsFromPEM ::
  "('d, 'u, 'b, 'c, 'w) platform \<Rightarrow> CertPool \<Rightarrow> string \<Rightarrow> CertPool \<times> bool" where
  "AppendCertsFromPEM P pool pem = (pool @ certsFromPEM P pem, certsFromPEM P pem \<noteq> [])"

section \<open>The package\<close>

text \<open>
  Pointers to \<^verbatim>\<open>contextImpl\<close> are addresses into a store of executors; \<^verbatim>\<open>&contextImpl{...}\<close>
  allocates the next address. The store only grows, and no function of the package
  writes to an executor that exists.
\<close>

type_synonym ref = nat

type_synonym 'c store = "'c contextImpl list"

definition alloc :: "'c store \<Rightarrow> 'c contextImpl \<Rightarrow> ref \<times> 'c store" where
  "alloc s obj = (length s, s @ [obj])"

definition NewHTTP :: "'c ClientInterface option \<Rightarrow> 'c store \<Rightarrow> ref \<times> 'c store" where
  "NewHTTP client0 s =
     (let client1 = (if client0 = None then Some http_DefaultClient else client0)
      in alloc s \<lparr>client = client1\<rparr>)"

text \<open>
  The loop \<^verbatim>\<open>for h, v := range headers { req.Header.Add(h, v) }\<close> of \<^verbatim>\<open>Get\<close> and \<^verbatim>\<open>Post\<close>.
  The argument \<open>headers\<close> is the Go map as the list of its entries in the order in
  which the run time happens to iterate over it: the names of a map are distinct, the
  order is arbitrary.
\<close>

fun range_headers :: "'u Request \<Rightarrow> (string \<times> string) list \<Rightarrow> 'u Request" where
  "range_headers req [] = req"
| "range_headers req ((h, v) # headers) =
     range_headers (req\<lparr>Header := Header_Add (Header req) h v\<rparr>) headers"

text \<open>
  \<^verbatim>\<open>executeRequest\<close>, in the order of the source: the call of \<^verbatim>\<open>Do\<close> and the test of
  its error; \<^verbatim>\<open>defer resp.Body.Close()\<close>; the decoding of the body under the test
  \<^verbatim>\<open>resp.Body != nil\<close>, with nil for a body that does not decode; the type assertion
  \<^verbatim>\<open>body.(map[string]any)\<close> and the two returns. Calling \<^verbatim>\<open>Do\<close> on a nil client,
  reading \<^verbatim>\<open>resp.Body\<close> of a nil response, and evaluating the method \<^verbatim>\<open>Close\<close> of a nil
  \<^verbatim>\<open>resp.Body\<close> in the \<^verbatim>\<open>defer\<close> statement are nil dereferences, which panic. What
  closing the body does to the connection is not modelled.
\<close>

definition executeRequest ::
  "('d, 'u, 'b, 'c, 'w) platform \<Rightarrow> 'c contextImpl \<Rightarrow> 'c ClientInterface option \<Rightarrow> 'u Request \<Rightarrow> 'w
     \<Rightarrow> (failure + val) \<times> 'w" where
  "executeRequest P r cl req w =
     (case cl of
        None \<Rightarrow> (Inl (Panic ''nil pointer dereference''), w)
      | Some c \<Rightarrow>
          (case Do P c req w of
             ((resp, err), w') \<Rightarrow>
               (case err of
                  Some e \<Rightarrow> (Inl (Err (Errorf ''request failed'' e)), w')
                | None \<Rightarrow>
                    (case resp of
                       None \<Rightarrow> (Inl (Panic ''nil pointer dereference''), w')
                     | Some resp' \<Rightarrow>
                         (case Body resp' of
                            None \<Rightarrow> (Inl (Panic ''nil pointer dereference''), w')
                          | Some _ \<Rightarrow>
                              (let body =
                                 (case Body resp' of
                                    None \<Rightarrow> VNil
                                  | Some b \<Rightarrow>
                                      (case json_Decode P b of Inl _ \<Rightarrow> VNil | Inr v \<Rightarrow> v))
                               in case body of
                                    VMap bodyMap \<Rightarrow>
                                      (Inr (VMap (bodyMap(''statusCode'' \<mapsto> VInt (StatusCode resp')))),
                                       w')
                                  | _ \<Rightarrow>
                                      (Inr (VMap [''body'' \<mapsto> body,
                                                  ''statusCode'' \<mapsto> VInt (StatusCode resp')]),
                                       w')))))))"

text \<open>
  \<^verbatim>\<open>Get\<close>, \<^verbatim>\<open>buildRequestData\<close> and \<^verbatim>\<open>Post\<close>. The methods only read the field
  \<^verbatim>\<open>client\<close> of their receiver, so they take the executor \<open>r\<close> points to.
\<close>

definition Get ::
  "('d, 'u, 'b, 'c, 'w) platform \<Rightarrow> 'c contextImpl \<Rightarrow> string \<Rightarrow> (string \<times> string) list \<Rightarrow> 'w
     \<Rightarrow> (failure + val) \<times> 'w" where
  "Get P r url headers w =
     (case NewRequestWithContext P ''GET'' url None of
        Inl err \<Rightarrow> (Inl (Err (Errorf ''failed to create request'' err)), w)
      | Inr req \<Rightarrow> executeRequest P r (client r) (range_headers req headers) w)"

definition buildRequestData :: "('d, 'u, 'b, 'c, 'w) platform \<Rightarrow> 'd \<Rightarrow> error + string" where
  "buildRequestData P data =
     (case json_Encode P data of
        Inl err \<Rightarrow> Inl (Errorf (''failed to encode HTTP POST data '' @ fmt_v P data) err)
      | Inr buffer \<Rightarrow> Inr buffer)"

definition Post ::
  "('d, 'u, 'b, 'c, 'w) platform \<Rightarrow> 'c contextImpl \<Rightarrow> string \<Rightarrow> 'd \<Rightarrow> (string \<times> string) list \<Rightarrow> 'w
     \<Rightarrow> (failure + val) \<times> 'w" where
  "Post P r url data headers w =
     (case buildRequestData P data of
        Inl err \<Rightarrow> (Inl (Err (Errorf ''failed to encode request data'' err)), w)
      | Inr body \<Rightarrow>
          (case NewRequestWithContext P ''POST'' url (Some body) of
             Inl err \<Rightarrow> (Inl (Err (Errorf ''failed to create request'' err)), w)
           | Inr req \<Rightarrow> executeRequest P r (client r) (range_headers req headers) w))"

text \<open>
  \<^verbatim>\<open>Client\<close>. The receiver \<open>r\<close> is a pointer and is returned as it is for the empty
  bundle; the method never reads what it points to.
\<close>

definition Client ::
  "('d, 'u, 'b, 'c, 'w) platform \<Rightarrow> ref \<Rightarrow> string \<Rightarrow> 'c store \<Rightarrow> (failure + ref) \<times> 'c store" where
  "Client P r caBundle s =
     (if caBundle = '''' then (Inr r, s)
      else
        (case AppendCertsFromPEM P NewCertPool caBundle of
           (caCertPool, ok) \<Rightarrow>
             if \<not> ok then (Inl (Err (Error ''failed to parse PEM CA bundle for APICall'')), s)
             else
               (let transport = \<lparr>TLSClientConfig = \<lparr>RootCAs = caCertPool, MinVersion = VersionTLS12\<rparr>\<rparr>
                in case alloc s \<lparr>client = Some (http_Client (tracing_Transport transport))\<rparr> of
                     (a, s') \<Rightarrow> (Inr a, s'))))"

section \<open>The header a request ends up with\<close>

text \<open>
  Two descriptions of the header of the outgoing request, as functions of the supplied
  header map. \<open>canonical_header\<close> is the closed form of what the loop of \<^verbatim>\<open>Get\<close> and
  \<^verbatim>\<open>Post\<close> builds on the empty header of a new request: under each key, the values
  of the supplied names whose canonical form is that key, in the order of the iteration.
  \<open>verbatim_header\<close> follows the words of the specification: exactly the supplied names,
  each mapped to its single value.
\<close>

definition canonical_header :: "(string \<times> string) list \<Rightarrow> Header" where
  "canonical_header headers k =
     (if filter (\<lambda>(h, v). CanonicalMIMEHeaderKey h = k) headers = [] then None
      else Some (map snd (filter (\<lambda>(h, v). CanonicalMIMEHeaderKey h = k) headers)))"

definition verbatim_header :: "(string \<times> string) list \<Rightarrow> Header" where
  "verbatim_header headers = map_of (map (\<lambda>(h, v). (h, [v])) headers)"

section \<open>A test double\<close>

text \<open>
  A platform for running the package on concrete inputs: a dispatcher that serves three
  URLs with fixed responses, refuses the connection for any other URL, and appends every
  request it receives to a log (the world); a URL parser that rejects the empty string;
  an encoder that accepts strings only; a decoder for the bodies the dispatcher serves;
  and a PEM parser that finds one certificate in the text \<open>''PEM''\<close> and none elsewhere.
\<close>

definition object_body :: string where
  "object_body = ''{\"data\":\"value\"}''"

definition array_body :: string where
  "array_body = ''[true,null]''"

definition double ::
  "(val, string, string, unit, string Request list) platform" where
  "double =
     \<lparr>url_Parse = (\<lambda>url. if url = '''' then Inl (Error ''empty url'') else Inr url),
      json_Encode =
        (\<lambda>d. case d of
               VString s \<Rightarrow> Inr (''\"'' @ s @ ''\"'')
             | _ \<Rightarrow> Inl (Error ''json: unsupported value'')),
      fmt_v = (\<lambda>d. ''<data>''),
      json_Decode =
        (\<lambda>b. if b = object_body then Inr (VMap [''data'' \<mapsto> VString ''value''])
             else if b = array_body then Inr (VSlice [VBool True, VNil])
             else Inl (Error ''invalid character'')),
      certsFromPEM = (\<lambda>pem. if pem = ''PEM'' then [''DER''] else []),
      Do =
        (\<lambda>c req w.
           ((if URL req = ''http://test/object''
               then (Some \<lparr>StatusCode = 200, Body = Some object_body\<rparr>, None)
             else if URL req = ''http://test/array''
               then (Some \<lparr>StatusCode = 200, Body = Some array_body\<rparr>, None)
             else if URL req = ''http://test/broken''
               then (Some \<lparr>StatusCode = 500, Body = Some ''Internal Server Error''\<rparr>, None)
             else (None, Some (Error ''connection refused''))),
            w @ [req]))\<rparr>"

definition executor :: "unit contextImpl" where
  "executor = \<lparr>client = Some (Other ())\<rparr>"

section \<open>Facts about the model\<close>

lemma executeRequest_object:
  assumes "Do P c req w = ((Some resp, None), w')" and "Body resp = Some b"
      and "json_Decode P b = Inr (VMap bodyMap)"
  shows "executeRequest P r (Some c) req w =
           (Inr (VMap (bodyMap(''statusCode'' \<mapsto> VInt (StatusCode resp)))), w')"
  using assms by (simp add: executeRequest_def)

lemma executeRequest_undecodable:
  assumes "Do P c req w = ((Some resp, None), w')" and "Body resp = Some b"
      and "json_Decode P b = Inl err"
  shows "executeRequest P r (Some c) req w =
           (Inr (VMap [''body'' \<mapsto> VNil, ''statusCode'' \<mapsto> VInt (StatusCode resp)]), w')"
  using assms by (simp add: executeRequest_def)

lemma executeRequest_non_object:
  assumes "Do P c req w = ((Some resp, None), w')" and "Body resp = Some b"
      and "json_Decode P b = Inr v" and "\<forall>m. v \<noteq> VMap m"
  shows "executeRequest P r (Some c) req w =
           (Inr (VMap [''body'' \<mapsto> v, ''statusCode'' \<mapsto> VInt (StatusCode resp)]), w')"
  using assms by (cases v) (simp_all add: executeRequest_def)

lemma executeRequest_Do_error:
  assumes "Do P c req w = ((resp, Some err), w')"
  shows "executeRequest P r (Some c) req w = (Inl (Err (Errorf ''request failed'' err)), w')"
  using assms by (simp add: executeRequest_def)

lemma Get_dispatches:
  assumes "NewRequestWithContext P ''GET'' url None = Inr req"
  shows "Get P r url headers w = executeRequest P r (client r) (range_headers req headers) w"
  using assms by (simp add: Get_def)

lemma Post_dispatches:
  assumes "buildRequestData P data = Inr buf"
      and "NewRequestWithContext P ''POST'' url (Some buf) = Inr req"
  shows "Post P r url data headers w = executeRequest P r (client r) (range_headers req headers) w"
  using assms by (simp add: Post_def)

lemma Header_Add_apply:
  "Header_Add hdr h v k =
     (if CanonicalMIMEHeaderKey h = k then Some ((case hdr k of None \<Rightarrow> [] | Some vs \<Rightarrow> vs) @ [v])
      else hdr k)"
  by (auto simp add: Header_Add_def Let_def)

lemma range_headers_Header:
  "Header (range_headers req headers) k =
     (if filter (\<lambda>(h, v). CanonicalMIMEHeaderKey h = k) headers = [] then Header req k
      else Some ((case Header req k of None \<Rightarrow> [] | Some vs \<Rightarrow> vs) @
                 map snd (filter (\<lambda>(h, v). CanonicalMIMEHeaderKey h = k) headers)))"
proof (induction req headers rule: range_headers.induct)
  case (1 req)
  show ?case by simp
next
  case (2 req h v headers)
  show ?case
    by (simp add: "2.IH" Header_Add_apply)
qed

lemma range_headers_fields:
  "range_headers req headers = req\<lparr>Header := Header (range_headers req headers)\<rparr>"
  by (induction req headers rule: range_headers.induct) simp_all

lemma range_headers_fresh:
  assumes "Header req = Map.empty"
  shows "range_headers req headers = req\<lparr>Header := canonical_header headers\<rparr>"
proof -
  have "Header (range_headers req headers) = canonical_header headers"
    by (rule ext) (simp add: range_headers_Header canonical_header_def assms)
  then show ?thesis
    using range_headers_fields [of req headers] by simp
qed

lemma NewRequestWithContext_Header:
  assumes "NewRequestWithContext P m url body = Inr req"
  shows "Header req = Map.empty"
  using assms by (auto simp add: NewRequestWithContext_def split: sum.splits)

lemma canonical_header_verbatim:
  assumes "distinct (map fst headers)"
      and "list_all (\<lambda>(h, v). CanonicalMIMEHeaderKey h = h) headers"
  shows "canonical_header headers = verbatim_header headers"
proof (rule ext)
  fix k
  from assms show "canonical_header headers k = verbatim_header headers k"
  proof (induction headers)
    case Nil
    show ?case by (simp add: canonical_header_def verbatim_header_def)
  next
    case (Cons p headers)
    obtain h v where p: "p = (h, v)" by (cases p)
    from Cons.prems p have canon: "CanonicalMIMEHeaderKey h = h"
      and rest: "list_all (\<lambda>(h, v). CanonicalMIMEHeaderKey h = h) headers"
      and fresh: "h \<notin> fst ` set headers" and dist: "distinct (map fst headers)"
      by simp_all
    have IH: "canonical_header headers k = verbatim_header headers k"
      using Cons.IH dist rest by simp
    show ?case
    proof (cases "h = k")
      case True
      have "filter (\<lambda>(h', v'). CanonicalMIMEHeaderKey h' = k) headers = []"
      proof (rule ccontr)
        assume "filter (\<lambda>(h', v'). CanonicalMIMEHeaderKey h' = k) headers \<noteq> []"
        then obtain q where q: "q \<in> set headers" "(\<lambda>(h', v'). CanonicalMIMEHeaderKey h' = k) q"
          by (auto simp add: filter_empty_conv)
        obtain h' v' where q': "q = (h', v')" by (cases q)
        from q q' rest have "h' = k"
          by (auto simp add: list_all_iff)
        with q q' True fresh show False by force
      qed
      with True canon p show ?thesis
        by (simp add: canonical_header_def verbatim_header_def)
    next
      case False
      with canon p IH show ?thesis
        by (auto simp add: canonical_header_def verbatim_header_def split: if_splits)
    qed
  qed
qed

lemma map_upd_keeps_dom: "dom m \<subseteq> dom (m(k \<mapsto> v))"
  by auto

subsection \<open>The test double evaluated\<close>

lemma double_GET:
  "url \<noteq> '''' \<Longrightarrow> NewRequestWithContext double ''GET'' url None =
     Inr \<lparr>Method = ''GET'', URL = url, Header = Map.empty, ReqBody = None\<rparr>"
  by (simp add: NewRequestWithContext_def double_def)

lemma double_POST:
  "url \<noteq> '''' \<Longrightarrow> NewRequestWithContext double ''POST'' url (Some buf) =
     Inr \<lparr>Method = ''POST'', URL = url, Header = Map.empty, ReqBody = Some buf\<rparr>"
  by (simp add: NewRequestWithContext_def double_def)

lemma double_buildRequestData:
  "buildRequestData double (VString s) = Inr (''\"'' @ s @ ''\"'')"
  by (simp add: buildRequestData_def double_def)

lemma double_Do:
  "Do double c req w =
     ((if URL req = ''http://test/object''
         then (Some \<lparr>StatusCode = 200, Body = Some object_body\<rparr>, None)
       else if URL req = ''http://test/array''
         then (Some \<lparr>StatusCode = 200, Body = Some array_body\<rparr>, None)
       else if URL req = ''http://test/broken''
         then (Some \<lparr>StatusCode = 500, Body = Some ''Internal Server Error''\<rparr>, None)
       else (None, Some (Error ''connection refused''))),
      w @ [req])"
  by (simp add: double_def)

lemma double_json_Decode:
  "json_Decode double object_body = Inr (VMap [''data'' \<mapsto> VString ''value''])"
  "json_Decode double array_body = Inr (VSlice [VBool True, VNil])"
  "json_Decode double ''Internal Server Error'' = Inl (Error ''invalid character'')"
  by (simp_all add: double_def object_body_def array_body_def)

lemma canonical_examples:
  "CanonicalMIMEHeaderKey ''content-type'' = ''Content-Type''"
  "CanonicalMIMEHeaderKey ''Content-Type'' = ''Content-Type''"
  "CanonicalMIMEHeaderKey ''Accept'' = ''Accept''"
  "CanonicalMIMEHeaderKey ''X-Api-Key'' = ''X-Api-Key''"
  by code_simp+

lemma double_json_Encode_float:
  "json_Encode double (VFloat64 x) = Inl (Error ''json: unsupported value'')"
  by (simp add: double_def)

lemma double_fmt_v: "fmt_v double d = ''<data>''"
  by (simp add: double_def)

lemma double_certsFromPEM:
  "certsFromPEM double pem = (if pem = ''PEM'' then [''DER''] else [])"
  by (simp add: double_def)

lemma double_executor_client: "client executor = Some (Other ())"
  by (simp add: executor_def)

section \<open>The response value\<close>

text \<open>
  Claim C1. Whenever the dispatcher returns a response without an error and the body
  decodes as a JSON object \<open>bodyMap\<close>, the value that \<^verbatim>\<open>Get\<close> and \<^verbatim>\<open>Post\<close> return is
  that map with \<open>statusCode\<close> set to the integer status code of the response, with no
  error; every key of \<open>bodyMap\<close> is still a key of the result, and every key other than
  \<open>statusCode\<close> keeps its value.
\<close>

theorem Get_Post_object_body_statusCode:
  assumes "client r = Some c" and "Body resp = Some b"
      and "json_Decode P b = Inr (VMap bodyMap)"
  shows "(NewRequestWithContext P ''GET'' url None = Inr greq \<and>
          Do P c (range_headers greq headers) w = ((Some resp, None), w')
          \<longrightarrow> Get P r url headers w =
                (Inr (VMap (bodyMap(''statusCode'' \<mapsto> VInt (StatusCode resp)))), w')) \<and>
         (buildRequestData P data = Inr buf \<and>
          NewRequestWithContext P ''POST'' url (Some buf) = Inr preq \<and>
          Do P c (range_headers preq headers) w = ((Some resp, None), w'')
          \<longrightarrow> Post P r url data headers w =
                (Inr (VMap (bodyMap(''statusCode'' \<mapsto> VInt (StatusCode resp)))), w'')) \<and>
         dom bodyMap \<subseteq> dom (bodyMap(''statusCode'' \<mapsto> VInt (StatusCode resp))) \<and>
         (\<forall>k. k \<noteq> ''statusCode''
            \<longrightarrow> (bodyMap(''statusCode'' \<mapsto> VInt (StatusCode resp))) k = bodyMap k)"
proof (intro conjI impI allI)
  assume "NewRequestWithContext P ''GET'' url None = Inr greq \<and>
    Do P c (range_headers greq headers) w = ((Some resp, None), w')"
  with assms show "Get P r url headers w =
      (Inr (VMap (bodyMap(''statusCode'' \<mapsto> VInt (StatusCode resp)))), w')"
    by (simp add: Get_dispatches executeRequest_object)
next
  assume "buildRequestData P data = Inr buf \<and>
    NewRequestWithContext P ''POST'' url (Some buf) = Inr preq \<and>
    Do P c (range_headers preq headers) w = ((Some resp, None), w'')"
  with assms show "Post P r url data headers w =
      (Inr (VMap (bodyMap(''statusCode'' \<mapsto> VInt (StatusCode resp)))), w'')"
    by (simp add: Post_dispatches executeRequest_object)
next
  show "dom bodyMap \<subseteq> dom (bodyMap(''statusCode'' \<mapsto> VInt (StatusCode resp)))"
    by (rule map_upd_keeps_dom)
next
  fix k :: string
  assume "k \<noteq> ''statusCode''"
  then show "(bodyMap(''statusCode'' \<mapsto> VInt (StatusCode resp))) k = bodyMap k"
    by simp
qed

theorem Get_Post_object_body_statusCode_witness:
  "Get double executor ''http://test/object'' [] [] =
     (Inr (VMap [''data'' \<mapsto> VString ''value'', ''statusCode'' \<mapsto> VInt 200]),
      [\<lparr>Method = ''GET'', URL = ''http://test/object'', Header = Map.empty, ReqBody = None\<rparr>]) \<and>
   Post double executor ''http://test/object'' (VString ''x'') [] [] =
     (Inr (VMap [''data'' \<mapsto> VString ''value'', ''statusCode'' \<mapsto> VInt 200]),
      [\<lparr>Method = ''POST'', URL = ''http://test/object'', Header = Map.empty,
        ReqBody = Some ''\"x\"''\<rparr>])"
  using Get_Post_object_body_statusCode
    [of executor "Other ()" "\<lparr>StatusCode = 200, Body = Some object_body\<rparr>" object_body double
      "[''data'' \<mapsto> VString ''value'']" "''http://test/object''"
      "\<lparr>Method = ''GET'', URL = ''http://test/object'', Header = Map.empty, ReqBody = None\<rparr>"
      "[]" "[]"
      "[\<lparr>Method = ''GET'', URL = ''http://test/object'', Header = Map.empty, ReqBody = None\<rparr>]"
      "VString ''x''" "''\"x\"''"
      "\<lparr>Method = ''POST'', URL = ''http://test/object'', Header = Map.empty,
        ReqBody = Some ''\"x\"''\<rparr>"
      "[\<lparr>Method = ''POST'', URL = ''http://test/object'', Header = Map.empty,
        ReqBody = Some ''\"x\"''\<rparr>]"]
  by (simp add: double_executor_client double_GET double_POST double_buildRequestData double_Do
      double_json_Decode)

text \<open>
  Claim C2. Whenever the dispatcher returns a response without an error and the body
  either fails to decode (then \<open>body\<close> is nil) or decodes to a value \<open>body\<close> that is
  not a JSON object, \<^verbatim>\<open>Get\<close> and \<^verbatim>\<open>Post\<close> return, with no error, a map with exactly
  the two keys \<open>body\<close> and \<open>statusCode\<close>, holding \<open>body\<close> and the integer status code.
\<close>

theorem Get_Post_non_object_body_wrapped:
  assumes "client r = Some c" and "Body resp = Some b"
      and "json_Decode P b = Inl err \<and> body = VNil \<or>
           json_Decode P b = Inr body \<and> (\<forall>m. body \<noteq> VMap m)"
  shows "(NewRequestWithContext P ''GET'' url None = Inr greq \<and>
          Do P c (range_headers greq headers) w = ((Some resp, None), w')
          \<longrightarrow> Get P r url headers w =
                (Inr (VMap [''body'' \<mapsto> body, ''statusCode'' \<mapsto> VInt (StatusCode resp)]), w')) \<and>
         (buildRequestData P data = Inr buf \<and>
          NewRequestWithContext P ''POST'' url (Some buf) = Inr preq \<and>
          Do P c (range_headers preq headers) w = ((Some resp, None), w'')
          \<longrightarrow> Post P r url data headers w =
                (Inr (VMap [''body'' \<mapsto> body, ''statusCode'' \<mapsto> VInt (StatusCode resp)]), w'')) \<and>
         dom [''body'' \<mapsto> body, ''statusCode'' \<mapsto> VInt (StatusCode resp)] =
           {''body'', ''statusCode''} \<and>
         card (dom [''body'' \<mapsto> body, ''statusCode'' \<mapsto> VInt (StatusCode resp)]) = 2"
proof (intro conjI impI)
  assume g: "NewRequestWithContext P ''GET'' url None = Inr greq \<and>
    Do P c (range_headers greq headers) w = ((Some resp, None), w')"
  from assms(3) show "Get P r url headers w =
      (Inr (VMap [''body'' \<mapsto> body, ''statusCode'' \<mapsto> VInt (StatusCode resp)]), w')"
  proof
    assume "json_Decode P b = Inl err \<and> body = VNil"
    with assms(1,2) g show ?thesis
      by (simp add: Get_dispatches executeRequest_undecodable)
  next
    assume "json_Decode P b = Inr body \<and> (\<forall>m. body \<noteq> VMap m)"
    with assms(1,2) g show ?thesis
      by (simp add: Get_dispatches executeRequest_non_object)
  qed
next
  assume p: "buildRequestData P data = Inr buf \<and>
    NewRequestWithContext P ''POST'' url (Some buf) = Inr preq \<and>
    Do P c (range_headers preq headers) w = ((Some resp, None), w'')"
  from assms(3) show "Post P r url data headers w =
      (Inr (VMap [''body'' \<mapsto> body, ''statusCode'' \<mapsto> VInt (StatusCode resp)]), w'')"
  proof
    assume "json_Decode P b = Inl err \<and> body = VNil"
    with assms(1,2) p show ?thesis
      by (simp add: Post_dispatches executeRequest_undecodable)
  next
    assume "json_Decode P b = Inr body \<and> (\<forall>m. body \<noteq> VMap m)"
    with assms(1,2) p show ?thesis
      by (simp add: Post_dispatches executeRequest_non_object)
  qed
next
  show "dom [''body'' \<mapsto> body, ''statusCode'' \<mapsto> VInt (StatusCode resp)] =
      {''body'', ''statusCode''}"
    by auto
next
  show "card (dom [''body'' \<mapsto> body, ''statusCode'' \<mapsto> VInt (StatusCode resp)]) = 2"
    by simp
qed

theorem Get_Post_non_object_body_wrapped_witness:
  "Get double executor ''http://test/array'' [] [] =
     (Inr (VMap [''body'' \<mapsto> VSlice [VBool True, VNil], ''statusCode'' \<mapsto> VInt 200]),
      [\<lparr>Method = ''GET'', URL = ''http://test/array'', Header = Map.empty, ReqBody = None\<rparr>]) \<and>
   Post double executor ''http://test/array'' (VString ''x'') [] [] =
     (Inr (VMap [''body'' \<mapsto> VSlice [VBool True, VNil], ''statusCode'' \<mapsto> VInt 200]),
      [\<lparr>Method = ''POST'', URL = ''http://test/array'', Header = Map.empty,
        ReqBody = Some ''\"x\"''\<rparr>])"
  using Get_Post_non_object_body_wrapped
    [of executor "Other ()" "\<lparr>StatusCode = 200, Body = Some array_body\<rparr>" array_body double
      "Error ''unused''" "VSlice [VBool True, VNil]" "''http://test/array''"
      "\<lparr>Method = ''GET'', URL = ''http://test/array'', Header = Map.empty, ReqBody = None\<rparr>"
      "[]" "[]"
      "[\<lparr>Method = ''GET'', URL = ''http://test/array'', Header = Map.empty, ReqBody = None\<rparr>]"
      "VString ''x''" "''\"x\"''"
      "\<lparr>Method = ''POST'', URL = ''http://test/array'', Header = Map.empty,
        ReqBody = Some ''\"x\"''\<rparr>"
      "[\<lparr>Method = ''POST'', URL = ''http://test/array'', Header = Map.empty,
        ReqBody = Some ''\"x\"''\<rparr>]"]
  by (simp add: double_executor_client double_GET double_POST double_buildRequestData double_Do
      double_json_Decode)

text \<open>
  Claim C3. Whenever the dispatcher returns a response without an error, whatever its
  status code, and decoding the body fails, \<^verbatim>\<open>Get\<close> and \<^verbatim>\<open>Post\<close> return no error: they
  return the map holding nil under \<open>body\<close> and the status code under \<open>statusCode\<close>.
\<close>

theorem Get_Post_decode_failure_not_an_error:
  assumes "client r = Some c" and "Body resp = Some b"
      and "json_Decode P b = Inl err"
  shows "(NewRequestWithContext P ''GET'' url None = Inr greq \<and>
          Do P c (range_headers greq headers) w = ((Some resp, None), w')
          \<longrightarrow> Get P r url headers w =
                (Inr (VMap [''body'' \<mapsto> VNil, ''statusCode'' \<mapsto> VInt (StatusCode resp)]), w')) \<and>
         (buildRequestData P data = Inr buf \<and>
          NewRequestWithContext P ''POST'' url (Some buf) = Inr preq \<and>
          Do P c (range_headers preq headers) w = ((Some resp, None), w'')
          \<longrightarrow> Post P r url data headers w =
                (Inr (VMap [''body'' \<mapsto> VNil, ''statusCode'' \<mapsto> VInt (StatusCode resp)]), w''))"
  using assms by (simp add: Get_dispatches Post_dispatches executeRequest_undecodable)

theorem Get_Post_decode_failure_not_an_error_witness:
  "Get double executor ''http://test/broken'' [] [] =
     (Inr (VMap [''body'' \<mapsto> VNil, ''statusCode'' \<mapsto> VInt 500]),
      [\<lparr>Method = ''GET'', URL = ''http://test/broken'', Header = Map.empty, ReqBody = None\<rparr>]) \<and>
   Post double executor ''http://test/broken'' (VString ''x'') [] [] =
     (Inr (VMap [''body'' \<mapsto> VNil, ''statusCode'' \<mapsto> VInt 500]),
      [\<lparr>Method = ''POST'', URL = ''http://test/broken'', Header = Map.empty,
        ReqBody = Some ''\"x\"''\<rparr>])"
  using Get_Post_decode_failure_not_an_error
    [of executor "Other ()" "\<lparr>StatusCode = 500, Body = Some ''Internal Server Error''\<rparr>"
      "''Internal Server Error''" double "Error ''invalid character''" "''http://test/broken''"
      "\<lparr>Method = ''GET'', URL = ''http://test/broken'', Header = Map.empty, ReqBody = None\<rparr>"
      "[]" "[]"
      "[\<lparr>Method = ''GET'', URL = ''http://test/broken'', Header = Map.empty, ReqBody = None\<rparr>]"
      "VString ''x''" "''\"x\"''"
      "\<lparr>Method = ''POST'', URL = ''http://test/broken'', Header = Map.empty,
        ReqBody = Some ''\"x\"''\<rparr>"
      "[\<lparr>Method = ''POST'', URL = ''http://test/broken'', Header = Map.empty,
        ReqBody = Some ''\"x\"''\<rparr>]"]
  by (simp add: double_executor_client double_GET double_POST double_buildRequestData double_Do
      double_json_Decode)

section \<open>Errors\<close>

text \<open>
  Claim C4. Whenever \<^verbatim>\<open>Do\<close> returns an error for the request that \<^verbatim>\<open>Get\<close> or \<^verbatim>\<open>Post\<close>
  built (whatever response it returns beside it), the call returns no response value and
  the error \<open>request failed\<close> wrapping the error of \<^verbatim>\<open>Do\<close>.
\<close>

theorem Get_Post_dispatch_failure:
  assumes "client r = Some c"
  shows "(NewRequestWithContext P ''GET'' url None = Inr greq \<and>
          Do P c (range_headers greq headers) w = ((resp, Some err), w')
          \<longrightarrow> Get P r url headers w = (Inl (Err (Errorf ''request failed'' err)), w')) \<and>
         (buildRequestData P data = Inr buf \<and>
          NewRequestWithContext P ''POST'' url (Some buf) = Inr preq \<and>
          Do P c (range_headers preq headers) w = ((resp', Some err'), w'')
          \<longrightarrow> Post P r url data headers w = (Inl (Err (Errorf ''request failed'' err')), w''))"
  using assms by (simp add: Get_dispatches Post_dispatches executeRequest_Do_error)

theorem Get_Post_dispatch_failure_witness:
  "Get double executor ''http://test/refused'' [] [] =
     (Inl (Err (Errorf ''request failed'' (Error ''connection refused''))),
      [\<lparr>Method = ''GET'', URL = ''http://test/refused'', Header = Map.empty, ReqBody = None\<rparr>]) \<and>
   Post double executor ''http://test/refused'' (VString ''x'') [] [] =
     (Inl (Err (Errorf ''request failed'' (Error ''connection refused''))),
      [\<lparr>Method = ''POST'', URL = ''http://test/refused'', Header = Map.empty,
        ReqBody = Some ''\"x\"''\<rparr>])"
  using Get_Post_dispatch_failure
    [of executor "Other ()" double "''http://test/refused''"
      "\<lparr>Method = ''GET'', URL = ''http://test/refused'', Header = Map.empty, ReqBody = None\<rparr>"
      "[]" "[]" None "Error ''connection refused''"
      "[\<lparr>Method = ''GET'', URL = ''http://test/refused'', Header = Map.empty, ReqBody = None\<rparr>]"
      "VString ''x''" "''\"x\"''"
      "\<lparr>Method = ''POST'', URL = ''http://test/refused'', Header = Map.empty,
        ReqBody = Some ''\"x\"''\<rparr>"
      None "Error ''connection refused''"
      "[\<lparr>Method = ''POST'', URL = ''http://test/refused'', Header = Map.empty,
        ReqBody = Some ''\"x\"''\<rparr>]"]
  by (simp add: double_executor_client double_GET double_POST double_buildRequestData double_Do)

text \<open>
  Claim C5. Whenever \<open>data\<close> cannot be encoded as JSON, \<^verbatim>\<open>Post\<close> returns no response
  value and the encoding error, wrapped twice. The URL is not looked at, the world is
  left as it was, and the result is the same whatever dispatcher \<open>d\<close> the platform has:
  \<^verbatim>\<open>Do\<close> is not called.
\<close>

theorem Post_encoding_error_before_dispatch:
  assumes "json_Encode P data = Inl err"
  shows "Post P r url data headers w =
           (Inl (Err (Errorf ''failed to encode request data''
              (Errorf (''failed to encode HTTP POST data '' @ fmt_v P data) err))), w) \<and>
         Post (P\<lparr>Do := d\<rparr>) r url data headers w = Post P r url data headers w"
  using assms by (simp add: Post_def buildRequestData_def)

theorem Post_encoding_error_before_dispatch_witness:
  "Post double executor ''http://test/object'' (VFloat64 0x7FF8000000000000) [] [] =
     (Inl (Err (Errorf ''failed to encode request data''
        (Errorf ''failed to encode HTTP POST data <data>'' (Error ''json: unsupported value'')))),
      [])"
  using Post_encoding_error_before_dispatch
    [of double "VFloat64 0x7FF8000000000000" "Error ''json: unsupported value''" executor
      "''http://test/object''" "[]" "[]"]
  by (simp add: double_json_Encode_float double_fmt_v)

section \<open>Headers\<close>

text \<open>
  Claim C9, as the code has it. \<^verbatim>\<open>Get\<close> and \<^verbatim>\<open>Post\<close> hand to \<^verbatim>\<open>executeRequest\<close>, and so
  to \<^verbatim>\<open>Do\<close>, the new request with the header \<open>canonical_header headers\<close>: every supplied
  value is stored unmodified, under the canonical form of its name, and the values of
  names with the same canonical form are collected under one key. When the supplied
  names are all in canonical form already, that header is exactly the supplied names,
  each mapped to its single value.
\<close>

theorem Get_Post_headers_under_canonical_names:
  "(NewRequestWithContext P ''GET'' url None = Inr greq
      \<longrightarrow> Get P r url headers w =
            executeRequest P r (client r) (greq\<lparr>Header := canonical_header headers\<rparr>) w) \<and>
   (buildRequestData P data = Inr buf \<and> NewRequestWithContext P ''POST'' url (Some buf) = Inr preq
      \<longrightarrow> Post P r url data headers w =
            executeRequest P r (client r) (preq\<lparr>Header := canonical_header headers\<rparr>) w) \<and>
   (distinct (map fst headers) \<and> list_all (\<lambda>(h, v). CanonicalMIMEHeaderKey h = h) headers
      \<longrightarrow> canonical_header headers = verbatim_header headers)"
proof (intro conjI impI)
  assume g: "NewRequestWithContext P ''GET'' url None = Inr greq"
  then have "Header greq = Map.empty"
    by (rule NewRequestWithContext_Header)
  then have "range_headers greq headers = greq\<lparr>Header := canonical_header headers\<rparr>"
    by (rule range_headers_fresh)
  with g show "Get P r url headers w =
      executeRequest P r (client r) (greq\<lparr>Header := canonical_header headers\<rparr>) w"
    by (simp add: Get_dispatches)
next
  assume p: "buildRequestData P data = Inr buf \<and>
    NewRequestWithContext P ''POST'' url (Some buf) = Inr preq"
  then have "Header preq = Map.empty"
    using NewRequestWithContext_Header [of P "''POST''" url "Some buf" preq] by simp
  then have "range_headers preq headers = preq\<lparr>Header := canonical_header headers\<rparr>"
    by (rule range_headers_fresh)
  with p show "Post P r url data headers w =
      executeRequest P r (client r) (preq\<lparr>Header := canonical_header headers\<rparr>) w"
    by (simp add: Post_dispatches)
next
  assume "distinct (map fst headers) \<and>
    list_all (\<lambda>(h, v). CanonicalMIMEHeaderKey h = h) headers"
  then show "canonical_header headers = verbatim_header headers"
    by (simp add: canonical_header_verbatim)
qed

theorem Get_Post_headers_under_canonical_names_witness:
  "Get double executor ''http://test/object''
     [(''Accept'', ''application/json''), (''X-Api-Key'', ''secret'')] [] =
     (Inr (VMap [''data'' \<mapsto> VString ''value'', ''statusCode'' \<mapsto> VInt 200]),
      [\<lparr>Method = ''GET'', URL = ''http://test/object'',
        Header = verbatim_header [(''Accept'', ''application/json''), (''X-Api-Key'', ''secret'')],
        ReqBody = None\<rparr>]) \<and>
   Post double executor ''http://test/object'' (VString ''x'')
     [(''Accept'', ''application/json''), (''X-Api-Key'', ''secret'')] [] =
     (Inr (VMap [''data'' \<mapsto> VString ''value'', ''statusCode'' \<mapsto> VInt 200]),
      [\<lparr>Method = ''POST'', URL = ''http://test/object'',
        Header = verbatim_header [(''Accept'', ''application/json''), (''X-Api-Key'', ''secret'')],
        ReqBody = Some ''\"x\"''\<rparr>])"
  using Get_Post_headers_under_canonical_names
    [of double "''http://test/object''"
      "\<lparr>Method = ''GET'', URL = ''http://test/object'', Header = Map.empty, ReqBody = None\<rparr>"
      executor "[(''Accept'', ''application/json''), (''X-Api-Key'', ''secret'')]" "[]"
      "VString ''x''" "''\"x\"''"
      "\<lparr>Method = ''POST'', URL = ''http://test/object'', Header = Map.empty,
        ReqBody = Some ''\"x\"''\<rparr>"]
  by (simp add: double_executor_client double_GET double_POST double_buildRequestData double_Do
      double_json_Decode canonical_examples executeRequest_def)

text \<open>
  Claim C9, as it is stated, fails: supplied with the one header \<open>content-type\<close>, \<^verbatim>\<open>Get\<close>
  gives the dispatcher a request whose header has the key \<open>Content-Type\<close> and no key
  \<open>content-type\<close>, where the supplied names taken verbatim have \<open>content-type\<close>.
\<close>

theorem Get_headers_verbatim_counterexample:
  "snd (Get double executor ''http://test/object'' [(''content-type'', ''application/json'')] []) =
     [\<lparr>Method = ''GET'', URL = ''http://test/object'',
       Header = [''Content-Type'' \<mapsto> [''application/json'']], ReqBody = None\<rparr>] \<and>
   [''Content-Type'' \<mapsto> [''application/json'']] ''content-type'' = None \<and>
   verbatim_header [(''content-type'', ''application/json'')] ''content-type'' =
     Some [''application/json'']"
  by (simp add: Get_def double_GET executeRequest_def executor_def double_Do double_json_Decode
      Header_Add_def canonical_examples verbatim_header_def)

section \<open>Deriving and constructing executors\<close>

text \<open>
  Claim C6. For the empty CA bundle, \<^verbatim>\<open>Client\<close> returns the receiver itself (the same
  pointer, no new executor) with no error, and the store is as it was.
\<close>

theorem Client_empty_bundle_identity:
  "Client P r '''' s = (Inr r, s)"
  by (simp add: Client_def)

theorem Client_empty_bundle_identity_witness:
  "Client double 0 '''' [executor] = (Inr 0, [executor])"
  using Client_empty_bundle_identity [of double 0 "[executor]"] by simp

text \<open>
  Claim C7. For a CA bundle that is not empty and out of which no certificate parses,
  \<^verbatim>\<open>Client\<close> returns no executor and an error, and allocates nothing.
\<close>

theorem Client_unparsable_bundle_error:
  assumes "caBundle \<noteq> ''''" and "certsFromPEM P caBundle = []"
  shows "Client P r caBundle s =
           (Inl (Err (Error ''failed to parse PEM CA bundle for APICall'')), s)"
  using assms by (simp add: Client_def AppendCertsFromPEM_def)

theorem Client_unparsable_bundle_error_witness:
  "Client double 0 ''not a certificate'' [executor] =
     (Inl (Err (Error ''failed to parse PEM CA bundle for APICall'')), [executor])"
  using Client_unparsable_bundle_error [of "''not a certificate''" double 0 "[executor]"]
  by (simp add: double_certsFromPEM)

text \<open>
  Claim C8. For a CA bundle that is not empty and out of which a certificate parses,
  \<^verbatim>\<open>Client\<close>, called on an executor \<open>r\<close> of the store, returns with no error the
  pointer to a newly allocated executor, which is not \<open>r\<close>; every executor that existed,
  the receiver among them, is what it was (its client too); and the new executor holds
  a new client on the traced transport that trusts the parsed certificates from
  TLS 1.2 on.
\<close>

theorem Client_parsed_bundle_new_executor:
  assumes "caBundle \<noteq> ''''" and "certsFromPEM P caBundle \<noteq> []" and "r < length s"
  shows "Client P r caBundle s =
           (Inr (length s),
            s @ [\<lparr>client = Some (http_Client (tracing_Transport
                   \<lparr>TLSClientConfig =
                      \<lparr>RootCAs = certsFromPEM P caBundle, MinVersion = VersionTLS12\<rparr>\<rparr>))\<rparr>]) \<and>
         length s \<noteq> r \<and>
         snd (Client P r caBundle s) ! r = s ! r \<and>
         client (snd (Client P r caBundle s) ! r) = client (s ! r) \<and>
         (\<forall>a. a < length s \<longrightarrow> snd (Client P r caBundle s) ! a = s ! a)"
  using assms
  by (simp add: Client_def AppendCertsFromPEM_def NewCertPool_def alloc_def nth_append)

theorem Client_parsed_bundle_new_executor_witness:
  "Client double 0 ''PEM'' [executor] =
     (Inr 1,
      [executor,
       \<lparr>client = Some (http_Client (tracing_Transport
          \<lparr>TLSClientConfig = \<lparr>RootCAs = [''DER''], MinVersion = 771\<rparr>\<rparr>))\<rparr>])"
  using Client_parsed_bundle_new_executor [of "''PEM''" double 0 "[executor]"]
  by (simp add: double_certsFromPEM VersionTLS12_def)

text \<open>
  Claim C10. For a nil client, \<^verbatim>\<open>NewHTTP\<close> allocates an executor whose client is not nil
  but \<^verbatim>\<open>http.DefaultClient\<close>; it has no way to fail.
\<close>

theorem NewHTTP_nil_client_default:
  "NewHTTP None s = (length s, s @ [\<lparr>client = Some http_DefaultClient\<rparr>]) \<and>
   client (snd (NewHTTP None s) ! fst (NewHTTP None s)) = Some http_DefaultClient \<and>
   client (snd (NewHTTP None s) ! fst (NewHTTP None s)) \<noteq> None"
  by (simp add: NewHTTP_def alloc_def)

theorem NewHTTP_nil_client_default_witness:
  "NewHTTP None [executor] = (1, [executor, \<lparr>client = Some http_DefaultClient\<rparr>])"
  using NewHTTP_nil_client_default [of "[executor]"] by simp

end
